theory Spec2Isabelle
  imports Main "HOL-Library.Sublist"
begin

text \<open>
  A model of the gateway server: an Express application that forwards requests to one
  upstream API with a bearer credential, resolving the payment endpoint template on the
  way. The repository also holds an earlier server with the single route
  \<^verbatim>\<open>GET /api/show/data\<close> (\<^verbatim>\<open>server.js\<close>); the model is of the full server.
\<close>

section \<open>JavaScript strings: \<open>includes\<close> and \<open>replace\<close> with a string pattern\<close>

text \<open>
  The server resolves the payment endpoint template with two string methods of the
  language, \<^verbatim>\<open>String.prototype.includes\<close> and \<^verbatim>\<open>String.prototype.replace\<close>, both
  called with a string (not a regular expression) as the pattern. A string is modelled
  as a list of characters.

  \<open>index_of pat s\<close> is the position of the first occurrence of \<open>pat\<close> in \<open>s\<close>
  (ECMAScript \<^verbatim>\<open>StringIndexOf(s, pat, 0)\<close>), \<open>None\<close> when there is none.
\<close>

fun index_of :: "string \<Rightarrow> string \<Rightarrow> nat option" where
  "index_of pat [] = (if pat = [] then Some 0 else None)"
| "index_of pat (c # cs) =
     (if prefix pat (c # cs) then Some 0 else map_option Suc (index_of pat cs))"

definition js_includes :: "string \<Rightarrow> string \<Rightarrow> bool" where
  "js_includes s pat = (index_of pat s \<noteq> None)"

text \<open>
  \<^verbatim>\<open>replace\<close> does not insert the replacement text as it is: it expands it with
  ECMAScript's \<^verbatim>\<open>GetSubstitution\<close>, in which a dollar sign introduces a pattern.
  Two dollar signs stand for one, a dollar and an ampersand for the matched text, a dollar
  and a backquote (character 0x60) for the text before the match, and a dollar and an
  apostrophe (character 0x27) for the text after it. With a string pattern there are no
  capture groups, so a dollar followed by digits or by \<open><\<close> is copied as it is, which
  is what the last branch does one character at a time.
\<close>

fun get_substitution :: "string \<Rightarrow> string \<Rightarrow> nat \<Rightarrow> string \<Rightarrow> string" where
  "get_substitution matched str pos [] = []"
| "get_substitution matched str pos [c] = [c]"
| "get_substitution matched str pos (c # d # r) =
     (if c = CHR ''$'' \<and> d = CHR ''$'' then
        CHR ''$'' # get_substitution matched str pos r
      else if c = CHR ''$'' \<and> d = CHR 0x60 then
        take pos str @ get_substitution matched str pos r
      else if c = CHR ''$'' \<and> d = CHR ''&'' then
        matched @ get_substitution matched str pos r
      else if c = CHR ''$'' \<and> d = CHR 0x27 then
        drop (min (pos + length matched) (length str)) str @ get_substitution matched str pos r
      else c # get_substitution matched str pos (d # r))"

text \<open>
  \<^verbatim>\<open>str.replace(pat, replacement)\<close>: only the first occurrence is replaced, and a string
  without an occurrence is returned unchanged.
\<close>

definition js_replace :: "string \<Rightarrow> string \<Rightarrow> string \<Rightarrow> string" where
  "js_replace str pat replacement =
     (case index_of pat str of
        None \<Rightarrow> str
      | Some pos \<Rightarrow>
          take pos str @ get_substitution pat str pos replacement @ drop (pos + length pat) str)"

section \<open>Resolving the payment endpoint template\<close>

text \<open>
  The handlers that take an identifier (GET, PUT and DELETE of a payment) all compute
  \<^verbatim>\<open>API_PAYMENT.replace('{id}', id)\<close>.
\<close>

definition paymentUrl :: "string \<Rightarrow> string \<Rightarrow> string" where
  "paymentUrl api_payment ident = js_replace api_payment ''{id}'' ident"

text \<open>
  The POST handler computes
  \<^verbatim>\<open>API_PAYMENT.includes('{id}') ? API_PAYMENT.replace('/{id}', '') : API_PAYMENT\<close>.
\<close>

definition paymentEndpoint :: "string \<Rightarrow> string" where
  "paymentEndpoint api_payment =
     (if js_includes api_payment ''{id}'' then js_replace api_payment ''/{id}'' '''' else api_payment)"

text \<open>
  The specification's wording of the substitution, for comparison with \<open>paymentUrl\<close>:
  the first occurrence of the placeholder is replaced by the identifier, taken literally.
\<close>

definition replace_first_literal :: "string \<Rightarrow> string \<Rightarrow> string \<Rightarrow> string" where
  "replace_first_literal pat ident template =
     (case index_of pat template of
        None \<Rightarrow> template
      | Some pos \<Rightarrow> take pos template @ ident @ drop (pos + length pat) template)"

section \<open>Values, requests and responses\<close>

text \<open>
  JSON values as the handlers see them: the body of a request as the JSON middleware left
  it in \<^verbatim>\<open>req.body\<close> (\<open>JUndefined\<close> when no body was parsed), the parsed body of an
  upstream response, and the objects the handlers send. Numbers are integers here (the
  only numbers the handlers build are status codes), so NaN is not represented.
\<close>

datatype json =
    JUndefined
  | JNull
  | JBool bool
  | JNum int
  | JStr string
  | JArr "json list"
  | JObj "(string \<times> json) list"

text \<open>The truth value of a JavaScript value, as \<^verbatim>\<open>!paymentData\<close> tests it.\<close>

fun truthy :: "json \<Rightarrow> bool" where
  "truthy JUndefined = False"
| "truthy JNull = False"
| "truthy (JBool b) = b"
| "truthy (JNum n) = (n \<noteq> 0)"
| "truthy (JStr s) = (s \<noteq> [])"
| "truthy (JArr xs) = True"
| "truthy (JObj kvs) = True"

text \<open>
  \<^verbatim>\<open>!id\<close> for a route parameter, which is a string or undefined (\<open>None\<close>): the undefined
  value and the empty string are the two falsy ones.
\<close>

fun truthy_param :: "string option \<Rightarrow> bool" where
  "truthy_param None = False"
| "truthy_param (Some s) = (s \<noteq> [])"

text \<open>The member of an object with a given key, \<open>None\<close> when the object has none.\<close>

fun field :: "json \<Rightarrow> string \<Rightarrow> json option" where
  "field (JObj kvs) k = map_of kvs k"
| "field _ k = None"

text \<open>The process-wide configuration, read once from the environment at startup.\<close>

record config =
  API_URL :: string
  API_PAYMENT :: string
  API_TOKEN :: string

text \<open>
  An inbound request: method, \<^verbatim>\<open>originalUrl\<close>, the path as the list of its segments,
  the route parameters and the body.
\<close>

record request =
  req_method :: string
  originalUrl :: string
  path :: "string list"
  params :: "string \<rightharpoonup> string"
  req_body :: json

text \<open>
  The arguments of one \<^verbatim>\<open>fetch\<close> call. \<open>fetch_method\<close> is \<open>None\<close> where the handler gives
  no method (the library then sends a GET); \<open>fetch_body\<close> is \<open>None\<close> where the handler
  gives no body, and \<open>Some v\<close> stands for the text \<^verbatim>\<open>JSON.stringify(v)\<close>.
\<close>

record fetch_request =
  url :: string
  fetch_method :: "string option"
  headers :: "(string \<times> string) list"
  fetch_body :: "json option"

text \<open>
  What the upstream answers. \<open>r_text\<close> and \<open>r_json\<close> are the outcomes of
  \<^verbatim>\<open>await response.text()\<close> and \<^verbatim>\<open>await response.json()\<close>: \<open>Inr\<close> the value, or
  \<open>Inl m\<close> when the promise rejects with an error whose message is \<open>m\<close> (the body is
  not valid JSON, or reading it fails).
\<close>

record upstream_response =
  r_status :: int
  r_statusText :: string
  r_text :: "string + string"
  r_json :: "string + json"

text \<open>\<^verbatim>\<open>response.ok\<close>: the status is in the range 200 to 299.\<close>

definition ok :: "upstream_response \<Rightarrow> bool" where
  "ok r = (200 \<le> r_status r \<and> r_status r \<le> 299)"

text \<open>
  The outcome of \<^verbatim>\<open>await fetch(...)\<close>: the promise rejects with an error (DNS failure,
  connection refused, timeout) carrying a message, or resolves with a response.
\<close>

datatype fetch_outcome = Rejected string | Resolved upstream_response

type_synonym upstream = "fetch_request \<Rightarrow> fetch_outcome"

text \<open>What a handler sends: \<^verbatim>\<open>res.status(code).json(payload)\<close>.\<close>

record http_response =
  code :: int
  payload :: json

text \<open>
  A handler run yields the outbound calls it made, in order, and the response it sent.
\<close>

type_synonym handled = "fetch_request list \<times> http_response"

section \<open>The route handlers\<close>

text \<open>
  Every outbound call carries the bearer credential; all but the connection test also
  declare a JSON content type.
\<close>

definition bearer :: "config \<Rightarrow> string \<times> string" where
  "bearer cfg = (''Authorization'', ''Bearer '' @ API_TOKEN cfg)"

definition content_type_json :: "string \<times> string" where
  "content_type_json = (''Content-Type'', ''application/json'')"

text \<open>The response of the \<^verbatim>\<open>catch\<close> branch of the data and payment handlers.\<close>

definition internal_error :: "string \<Rightarrow> http_response" where
  "internal_error m =
     \<lparr>code = 500, payload = JObj [(''error'', JStr ''Internal server error''), (''message'', JStr m)]\<rparr>"

text \<open>The response of a failed presence check.\<close>

definition bad_request :: "string \<Rightarrow> http_response" where
  "bad_request m = \<lparr>code = 400, payload = JObj [(''error'', JStr m)]\<rparr>"

text \<open>
  A route parameter used as a string (\<^verbatim>\<open>replace\<close> converts its argument with
  \<^verbatim>\<open>ToString\<close>, which turns the undefined value into the text \<open>undefined\<close>) and as a
  member of a JSON object.
\<close>

fun param_string :: "string option \<Rightarrow> string" where
  "param_string None = ''undefined''"
| "param_string (Some s) = s"

fun param_json :: "string option \<Rightarrow> json" where
  "param_json None = JUndefined"
| "param_json (Some s) = JStr s"

subsection \<open>GET /api/show/data\<close>

definition show_data_call :: "config \<Rightarrow> fetch_request" where
  "show_data_call cfg =
     \<lparr>url = API_URL cfg, fetch_method = None,
      headers = [bearer cfg, content_type_json], fetch_body = None\<rparr>"

definition get_show_data :: "config \<Rightarrow> upstream \<Rightarrow> handled" where
  "get_show_data cfg up =
     (let rq = show_data_call cfg in
      ([rq],
       case up rq of
         Rejected m \<Rightarrow> internal_error m
       | Resolved r \<Rightarrow>
           if \<not> ok r then
             \<lparr>code = r_status r,
              payload = JObj [(''error'', JStr ''Failed to fetch external API''),
                              (''status'', JNum (r_status r)),
                              (''statusText'', JStr (r_statusText r))]\<rparr>
           else
             (case r_json r of
                Inl m \<Rightarrow> internal_error m
              | Inr data \<Rightarrow> \<lparr>code = 200, payload = data\<rparr>)))"

subsection \<open>GET /api/show/data/payment/:id\<close>

definition payment_get_call :: "config \<Rightarrow> string \<Rightarrow> fetch_request" where
  "payment_get_call cfg ident =
     \<lparr>url = paymentUrl (API_PAYMENT cfg) ident, fetch_method = None,
      headers = [bearer cfg, content_type_json], fetch_body = None\<rparr>"

definition get_payment :: "config \<Rightarrow> upstream \<Rightarrow> request \<Rightarrow> handled" where
  "get_payment cfg up req =
     (let ident = params req ''id'' in
      if \<not> truthy_param ident then ([], bad_request ''Payment ID is required'')
      else
        let rq = payment_get_call cfg (param_string ident) in
        ([rq],
         case up rq of
           Rejected m \<Rightarrow> internal_error m
         | Resolved r \<Rightarrow>
             if \<not> ok r then
               \<lparr>code = r_status r,
                payload = JObj [(''error'', JStr ''Failed to fetch payment data''),
                                (''status'', JNum (r_status r)),
                                (''statusText'', JStr (r_statusText r))]\<rparr>
             else
               (case r_json r of
                  Inl m \<Rightarrow> internal_error m
                | Inr data \<Rightarrow> \<lparr>code = 200, payload = data\<rparr>)))"

subsection \<open>POST /api/payment\<close>

definition payment_post_call :: "config \<Rightarrow> json \<Rightarrow> fetch_request" where
  "payment_post_call cfg paymentData =
     \<lparr>url = paymentEndpoint (API_PAYMENT cfg), fetch_method = Some ''POST'',
      headers = [bearer cfg, content_type_json], fetch_body = Some paymentData\<rparr>"

definition post_payment :: "config \<Rightarrow> upstream \<Rightarrow> request \<Rightarrow> handled" where
  "post_payment cfg up req =
     (let paymentData = req_body req in
      if \<not> truthy paymentData then ([], bad_request ''Payment data is required'')
      else
        let rq = payment_post_call cfg paymentData in
        ([rq],
         case up rq of
           Rejected m \<Rightarrow> internal_error m
         | Resolved r \<Rightarrow>
             if \<not> ok r then
               (case r_text r of
                  Inl m \<Rightarrow> internal_error m
                | Inr errorText \<Rightarrow>
                    \<lparr>code = r_status r,
                     payload = JObj [(''error'', JStr ''Failed to create payment''),
                                     (''status'', JNum (r_status r)),
                                     (''statusText'', JStr (r_statusText r)),
                                     (''details'', JStr errorText)]\<rparr>)
             else
               (case r_json r of
                  Inl m \<Rightarrow> internal_error m
                | Inr data \<Rightarrow> \<lparr>code = 201, payload = data\<rparr>)))"

subsection \<open>PUT /api/payment/:id\<close>

definition payment_put_call :: "config \<Rightarrow> string \<Rightarrow> json \<Rightarrow> fetch_request" where
  "payment_put_call cfg ident paymentData =
     \<lparr>url = paymentUrl (API_PAYMENT cfg) ident, fetch_method = Some ''PUT'',
      headers = [bearer cfg, content_type_json], fetch_body = Some paymentData\<rparr>"

definition put_payment :: "config \<Rightarrow> upstream \<Rightarrow> request \<Rightarrow> handled" where
  "put_payment cfg up req =
     (let ident = params req ''id''; paymentData = req_body req in
      if \<not> truthy_param ident then ([], bad_request ''Payment ID is required'')
      else if \<not> truthy paymentData then ([], bad_request ''Payment data is required'')
      else
        let rq = payment_put_call cfg (param_string ident) paymentData in
        ([rq],
         case up rq of
           Rejected m \<Rightarrow> internal_error m
         | Resolved r \<Rightarrow>
             if \<not> ok r then
               (case r_text r of
                  Inl m \<Rightarrow> internal_error m
                | Inr errorText \<Rightarrow>
                    \<lparr>code = r_status r,
                     payload = JObj [(''error'', JStr ''Failed to update payment''),
                                     (''status'', JNum (r_status r)),
                                     (''statusText'', JStr (r_statusText r)),
                                     (''details'', JStr errorText)]\<rparr>)
             else
               (case r_json r of
                  Inl m \<Rightarrow> internal_error m
                | Inr data \<Rightarrow> \<lparr>code = 200, payload = data\<rparr>)))"

subsection \<open>DELETE /api/payment/:id\<close>

definition payment_delete_call :: "config \<Rightarrow> string \<Rightarrow> fetch_request" where
  "payment_delete_call cfg ident =
     \<lparr>url = paymentUrl (API_PAYMENT cfg) ident, fetch_method = Some ''DELETE'',
      headers = [bearer cfg, content_type_json], fetch_body = None\<rparr>"

definition delete_payment :: "config \<Rightarrow> upstream \<Rightarrow> request \<Rightarrow> handled" where
  "delete_payment cfg up req =
     (let ident = params req ''id'' in
      if \<not> truthy_param ident then ([], bad_request ''Payment ID is required'')
      else
        let rq = payment_delete_call cfg (param_string ident) in
        ([rq],
         case up rq of
           Rejected m \<Rightarrow> internal_error m
         | Resolved r \<Rightarrow>
             if \<not> ok r then
               (case r_text r of
                  Inl m \<Rightarrow> internal_error m
                | Inr errorText \<Rightarrow>
                    \<lparr>code = r_status r,
                     payload = JObj [(''error'', JStr ''Failed to delete payment''),
                                     (''status'', JNum (r_status r)),
                                     (''statusText'', JStr (r_statusText r)),
                                     (''details'', JStr errorText)]\<rparr>)
             else
               \<lparr>code = 200,
                payload = JObj [(''message'', JStr ''Payment deleted successfully''),
                                (''id'', param_json ident)]\<rparr>))"

subsection \<open>GET /api/test-connection and GET /health\<close>

text \<open>
  Both report the time of the request, \<^verbatim>\<open>new Date().toISOString()\<close>, which the model
  takes as the argument \<open>now\<close>.
\<close>

definition test_connection_call :: "config \<Rightarrow> fetch_request" where
  "test_connection_call cfg =
     \<lparr>url = API_URL cfg, fetch_method = None, headers = [bearer cfg], fetch_body = None\<rparr>"

definition test_connection :: "config \<Rightarrow> string \<Rightarrow> upstream \<Rightarrow> handled" where
  "test_connection cfg now up =
     (let rq = test_connection_call cfg in
      ([rq],
       case up rq of
         Rejected m \<Rightarrow>
           \<lparr>code = 500,
            payload = JObj [(''success'', JBool False),
                            (''error'', JStr m),
                            (''url'', JStr (API_URL cfg)),
                            (''timestamp'', JStr now)]\<rparr>
       | Resolved r \<Rightarrow>
           \<lparr>code = 200,
            payload = JObj [(''success'', JBool (ok r)),
                            (''status'', JNum (r_status r)),
                            (''statusText'', JStr (r_statusText r)),
                            (''url'', JStr (API_URL cfg)),
                            (''timestamp'', JStr now)]\<rparr>))"

definition set_or_missing :: "string \<Rightarrow> json" where
  "set_or_missing v = JStr (if v \<noteq> [] then ''Set'' else ''Missing'')"

definition health :: "config \<Rightarrow> string \<Rightarrow> handled" where
  "health cfg now =
     ([],
      \<lparr>code = 200,
       payload = JObj [(''status'', JStr ''OK''),
                       (''timestamp'', JStr now),
                       (''environment'',
                        JObj [(''API_URL'', set_or_missing (API_URL cfg)),
                              (''API_PAYMENT'', set_or_missing (API_PAYMENT cfg)),
                              (''API_TOKEN'', set_or_missing (API_TOKEN cfg))])]\<rparr>)"

section \<open>Routing and the 404 handler\<close>

text \<open>
  The routes in the order in which the server registers them. A path pattern is a list of
  segments: a literal one, or a parameter such as \<^verbatim>\<open>:id\<close>, which matches any one
  non-empty segment and binds it.
\<close>

datatype segment = Lit string | Param string

datatype handler =
    Health | ShowData | GetPayment | PostPayment | PutPayment | DeletePayment | TestConnection

type_synonym route = "string \<times> segment list \<times> handler"

definition routes :: "route list" where
  "routes =
     [(''GET'', [Lit ''health''], Health),
      (''GET'', [Lit ''api'', Lit ''show'', Lit ''data''], ShowData),
      (''GET'', [Lit ''api'', Lit ''show'', Lit ''data'', Lit ''payment'', Param ''id''], GetPayment),
      (''POST'', [Lit ''api'', Lit ''payment''], PostPayment),
      (''PUT'', [Lit ''api'', Lit ''payment'', Param ''id''], PutPayment),
      (''DELETE'', [Lit ''api'', Lit ''payment'', Param ''id''], DeletePayment),
      (''GET'', [Lit ''api'', Lit ''test-connection''], TestConnection)]"

text \<open>The list that the 404 handler sends as \<^verbatim>\<open>availableEndpoints\<close>.\<close>

definition availableEndpoints :: "string list" where
  "availableEndpoints =
     [''GET /health'',
      ''GET /api/show/data'',
      ''GET /api/payment/:id'',
      ''POST /api/payment'',
      ''PUT /api/payment/:id'',
      ''DELETE /api/payment/:id'',
      ''GET /api/test-connection'']"

definition not_found :: "request \<Rightarrow> http_response" where
  "not_found req =
     \<lparr>code = 404,
      payload = JObj [(''error'', JStr ''Route not found''),
                      (''path'', JStr (originalUrl req)),
                      (''method'', JStr (req_method req)),
                      (''availableEndpoints'', JArr (map JStr availableEndpoints))]\<rparr>"

text \<open>A route written the way the list above writes one: method, space, path.\<close>

fun segment_name :: "segment \<Rightarrow> string" where
  "segment_name (Lit s) = s"
| "segment_name (Param n) = CHR '':'' # n"

fun route_name :: "route \<Rightarrow> string" where
  "route_name (m, pat, h) = m @ '' '' @ concat (map (\<lambda>sg. CHR ''/'' # segment_name sg) pat)"

text \<open>
  Matching a path against a pattern yields the route parameters. Literal segments are
  compared as they are (the framework's defaults also accept another letter case and a
  trailing slash, which the model leaves out).
\<close>

fun match_path :: "segment list \<Rightarrow> string list \<Rightarrow> (string \<rightharpoonup> string) option" where
  "match_path [] [] = Some Map.empty"
| "match_path (Lit s # pat) (x # xs) = (if x = s then match_path pat xs else None)"
| "match_path (Param n # pat) (x # xs) =
     (if x = [] then None else map_option (\<lambda>ps. ps(n \<mapsto> x)) (match_path pat xs))"
| "match_path _ _ = None"

fun run_handler :: "handler \<Rightarrow> config \<Rightarrow> string \<Rightarrow> upstream \<Rightarrow> request \<Rightarrow> handled" where
  "run_handler Health cfg now up req = health cfg now"
| "run_handler ShowData cfg now up req = get_show_data cfg up"
| "run_handler GetPayment cfg now up req = get_payment cfg up req"
| "run_handler PostPayment cfg now up req = post_payment cfg up req"
| "run_handler PutPayment cfg now up req = put_payment cfg up req"
| "run_handler DeletePayment cfg now up req = delete_payment cfg up req"
| "run_handler TestConnection cfg now up req = test_connection cfg now up"

text \<open>
  The first route whose method and pattern match handles the request; a request that no
  route matches reaches the 404 handler, registered after the routes. The logging
  middleware in front of the routes only writes to the console. The error middleware
  registered at the very end is never reached from these handlers, each of which catches
  its own errors.
\<close>

fun dispatch :: "route list \<Rightarrow> config \<Rightarrow> string \<Rightarrow> upstream \<Rightarrow> request \<Rightarrow> handled" where
  "dispatch [] cfg now up req = ([], not_found req)"
| "dispatch ((m, pat, h) # rs) cfg now up req =
     (if req_method req = m then
        (case match_path pat (path req) of
           Some ps \<Rightarrow> run_handler h cfg now up (req\<lparr>params := ps\<rparr>)
         | None \<Rightarrow> dispatch rs cfg now up req)
      else dispatch rs cfg now up req)"

definition app :: "config \<Rightarrow> string \<Rightarrow> upstream \<Rightarrow> request \<Rightarrow> handled" where
  "app cfg now up req = dispatch routes cfg now up req"

section \<open>Sample inputs\<close>

text \<open>
  A configuration with a payment template of the usual shape, an upstream that gives the
  same answer to every call, one that refuses every connection, and a few requests.
\<close>

definition sample_config :: config where
  "sample_config =
     \<lparr>API_URL = ''https://api.example.com/shows'',
      API_PAYMENT = ''https://api.example.com/payments/{id}'',
      API_TOKEN = ''secret''\<rparr>"

definition answering :: "upstream_response \<Rightarrow> upstream" where
  "answering r rq = Resolved r"

definition refusing :: "string \<Rightarrow> upstream" where
  "refusing m rq = Rejected m"

definition created_response :: upstream_response where
  "created_response =
     \<lparr>r_status = 201, r_statusText = ''Created'',
      r_text = Inr ''{\"amount\":10}'', r_json = Inr (JObj [(''amount'', JNum 10)])\<rparr>"

definition ok_response :: upstream_response where
  "ok_response =
     \<lparr>r_status = 200, r_statusText = ''OK'',
      r_text = Inr ''{\"amount\":10}'', r_json = Inr (JObj [(''amount'', JNum 10)])\<rparr>"

definition ok_not_json_response :: upstream_response where
  "ok_not_json_response =
     \<lparr>r_status = 200, r_statusText = ''OK'',
      r_text = Inr ''<html>'', r_json = Inl ''Unexpected token < in JSON at position 0''\<rparr>"

definition missing_response :: upstream_response where
  "missing_response =
     \<lparr>r_status = 404, r_statusText = ''Not Found'',
      r_text = Inr ''no such payment'', r_json = Inl ''Unexpected token o in JSON at position 1''\<rparr>"

definition request_with :: "string option \<Rightarrow> json \<Rightarrow> request" where
  "request_with ident b =
     \<lparr>req_method = ''PUT'', originalUrl = ''/api/payment'', path = [''api'', ''payment''],
      params = (case ident of None \<Rightarrow> Map.empty | Some i \<Rightarrow> [''id'' \<mapsto> i]), req_body = b\<rparr>"

definition get_api_payment_42 :: request where
  "get_api_payment_42 =
     \<lparr>req_method = ''GET'', originalUrl = ''/api/payment/42'',
      path = [''api'', ''payment'', ''42''], params = Map.empty, req_body = JUndefined\<rparr>"

definition post_api_payment :: request where
  "post_api_payment =
     \<lparr>req_method = ''POST'', originalUrl = ''/api/payment'', path = [''api'', ''payment''],
      params = Map.empty, req_body = JObj [(''amount'', JNum 10)]\<rparr>"

section \<open>Properties of an outbound call\<close>

text \<open>The call carries the bearer credential of the configuration.\<close>

definition authorized :: "config \<Rightarrow> fetch_request \<Rightarrow> bool" where
  "authorized cfg rq =
     (map_of (headers rq) ''Authorization'' = Some (''Bearer '' @ API_TOKEN cfg))"

text \<open>The call declares a JSON body.\<close>

definition declares_json :: "fetch_request \<Rightarrow> bool" where
  "declares_json rq = (map_of (headers rq) ''Content-Type'' = Some ''application/json'')"

section \<open>Facts about the string operations\<close>

lemma index_of_prefix: "prefix pat s \<Longrightarrow> index_of pat s = Some 0"
  by (cases s) auto

text \<open>An occurrence with no occurrence starting before it is the one \<open>index_of\<close> finds.\<close>

lemma index_of_first:
  "(\<forall>k<length p. \<not> prefix pat (drop k (p @ pat @ s))) \<Longrightarrow>
   index_of pat (p @ pat @ s) = Some (length p)"
proof (induction p)
  case Nil
  then show ?case by (simp add: index_of_prefix)
next
  case (Cons c p)
  from Cons.prems have head: "\<not> prefix pat (c # p @ pat @ s)"
    by (metis Cons_eq_appendI drop0 length_greater_0_conv list.discI)
  from Cons.prems have "\<forall>k<length p. \<not> prefix pat (drop k (p @ pat @ s))"
    by (metis Cons_eq_appendI Suc_less_eq drop_Suc_Cons length_Cons)
  with Cons.IH have "index_of pat (p @ pat @ s) = Some (length p)" by blast
  with head show ?case by simp
qed

text \<open>\<open>js_includes\<close> is the substring test.\<close>

lemma js_includes_iff: "js_includes s pat \<longleftrightarrow> (\<exists>a b. s = a @ pat @ b)"
proof (induction s)
  case Nil
  then show ?case by (auto simp: js_includes_def)
next
  case (Cons c s)
  show ?case
  proof (cases "prefix pat (c # s)")
    case True
    then obtain b where "c # s = pat @ b" by (auto simp: prefix_def)
    then have "c # s = [] @ pat @ b" by simp
    with True show ?thesis
      unfolding js_includes_def by (metis index_of.simps(2) option.distinct(1))
  next
    case False
    have "js_includes (c # s) pat \<longleftrightarrow> js_includes s pat"
      using False by (simp add: js_includes_def)
    also have "\<dots> \<longleftrightarrow> (\<exists>a b. s = a @ pat @ b)" by (rule Cons.IH)
    also have "\<dots> \<longleftrightarrow> (\<exists>a b. c # s = a @ pat @ b)"
    proof
      assume "\<exists>a b. s = a @ pat @ b"
      then obtain a b where "s = a @ pat @ b" by blast
      then have "c # s = (c # a) @ pat @ b" by simp
      then show "\<exists>a b. c # s = a @ pat @ b" by blast
    next
      assume "\<exists>a b. c # s = a @ pat @ b"
      then obtain a b where ab: "c # s = a @ pat @ b" by blast
      show "\<exists>a b. s = a @ pat @ b"
      proof (cases a)
        case Nil
        with ab have "prefix pat (c # s)" by (simp add: prefix_def)
        with False show ?thesis by simp
      next
        case (Cons x a')
        with ab have "s = a' @ pat @ b" by simp
        then show ?thesis by blast
      qed
    qed
    finally show ?thesis .
  qed
qed

lemma js_replace_absent: "\<not> js_includes t pat \<Longrightarrow> js_replace t pat r = t"
  by (simp add: js_replace_def js_includes_def)

text \<open>A replacement text without a dollar sign is inserted as it is.\<close>

lemma get_substitution_plain:
  "CHR ''$'' \<notin> set replacement \<Longrightarrow> get_substitution matched str pos replacement = replacement"
  by (induction matched str pos replacement rule: get_substitution.induct) auto

text \<open>
  So for an identifier without a dollar sign, the URL of the handlers that take an
  identifier is the template with the first placeholder replaced by the identifier.
\<close>

lemma paymentUrl_plain:
  "CHR ''$'' \<notin> set ident \<Longrightarrow> paymentUrl t ident = replace_first_literal ''{id}'' ident t"
  by (simp add: paymentUrl_def js_replace_def replace_first_literal_def get_substitution_plain
      split: option.splits)

text \<open>
  In a template whose first placeholder follows a slash, no slash-and-placeholder starts
  earlier: it would either put a placeholder before the first one, or put one of the
  placeholder's characters where the slash is.
\<close>

lemma slash_placeholder_first:
  assumes "\<not> js_includes p ''{id}''" and "k < length p"
  shows "\<not> prefix ''/{id}'' (drop k (p @ ''/{id}'' @ s))"
proof
  assume pre: "prefix ''/{id}'' (drop k (p @ ''/{id}'' @ s))"
  define q where "q = drop k p"
  from assms(2) have q: "q \<noteq> []" and p: "p = take k p @ q" by (simp_all add: q_def)
  from assms(2) have "drop k (p @ ''/{id}'' @ s) = q @ ''/{id}'' @ s" by (simp add: q_def)
  with pre have pre': "prefix ''/{id}'' (q @ ''/{id}'' @ s)" by simp
  from q obtain c q' where qc: "q = c # q'" by (cases q) auto
  with pre' have "prefix ''{id}'' (q' @ ''/{id}'' @ s)" by auto
  then have "\<exists>r. q' = ''{id}'' @ r"
    by (cases q'; cases "tl q'"; cases "tl (tl q')"; cases "tl (tl (tl q'))") auto
  then obtain r where "q' = ''{id}'' @ r" by blast
  with p qc have "p = (take k p @ [c]) @ ''{id}'' @ r" by simp
  then have "js_includes p ''{id}''" unfolding js_includes_iff by blast
  with assms(1) show False by simp
qed

lemma paymentEndpoint_strip:
  assumes "\<not> js_includes p ''{id}''"
  shows "paymentEndpoint (p @ ''/{id}'' @ s) = p @ s"
proof -
  have inc: "js_includes (p @ ''/{id}'' @ s) ''{id}''"
  proof -
    have "p @ ''/{id}'' @ s = (p @ ''/'') @ ''{id}'' @ s" by simp
    then show ?thesis unfolding js_includes_iff by blast
  qed
  have "index_of ''/{id}'' (p @ ''/{id}'' @ s) = Some (length p)"
    by (rule index_of_first) (use assms slash_placeholder_first in blast)
  then have "js_replace (p @ ''/{id}'' @ s) ''/{id}'' [] = p @ s"
    by (simp add: js_replace_def)
  with inc show ?thesis by (simp add: paymentEndpoint_def)
qed

section \<open>The URL of the Create operation\<close>

text \<open>
  C1: the URL that Create resolves is the template unchanged when the template has no
  placeholder, and otherwise the template without the placeholder and the slash before
  it, so that no placeholder is left in the URL. The comment above the computation asks
  for an endpoint without the placeholder, and for a template whose first placeholder
  follows a slash the handler gives one (\<open>paymentEndpoint_strip\<close> above). But the
  handler tests for the placeholder alone and then removes a slash followed by the
  placeholder: for a template that passes the identifier in the query the test succeeds,
  nothing is removed, and the payment is posted to a URL with the placeholder in it. The
  handlers that take an identifier resolve the same template.
\<close>

theorem paymentEndpoint_keeps_placeholder:
  "js_includes ''https://api.example.com/payments?id={id}'' ''{id}'' \<and>
   paymentEndpoint ''https://api.example.com/payments?id={id}'' =
     ''https://api.example.com/payments?id={id}'' \<and>
   js_includes (paymentEndpoint ''https://api.example.com/payments?id={id}'') ''{id}'' \<and>
   paymentUrl ''https://api.example.com/payments?id={id}'' ''42'' =
     ''https://api.example.com/payments?id=42''"
  by (simp add: paymentEndpoint_def paymentUrl_def js_replace_def js_includes_def)

section \<open>The URL of the operations that take an identifier\<close>

text \<open>
  C2: for every identifier and every template, the URL resolved by the fetch, update and
  delete operations is the template with the first placeholder replaced by the
  identifier, taken literally. The comment above the call says that the placeholder is
  replaced with the actual identifier, but the call expands dollar patterns in it: for the
  identifier made of two dollar signs the URL ends in a single one, and for a dollar sign
  followed by an ampersand the placeholder stays in the URL.
\<close>

theorem paymentUrl_expands_dollar_patterns:
  "paymentUrl ''https://api.example.com/payments/{id}'' ''$$'' =
     ''https://api.example.com/payments/$'' \<and>
   replace_first_literal ''{id}'' ''$$'' ''https://api.example.com/payments/{id}'' =
     ''https://api.example.com/payments/$$'' \<and>
   paymentUrl ''https://api.example.com/payments/{id}'' ''$&'' =
     ''https://api.example.com/payments/{id}'' \<and>
   replace_first_literal ''{id}'' ''$&'' ''https://api.example.com/payments/{id}'' =
     ''https://api.example.com/payments/$&''"
  by (simp add: paymentUrl_def js_replace_def replace_first_literal_def)

section \<open>Presence checks\<close>

text \<open>
  C3: a request to an operation that needs an identifier (fetch, update, delete) or a
  payload (create, update) and lacks it is answered with status 400 and a message naming
  what is missing, and no outbound call is made. The update handler checks the identifier
  first, so a request that lacks both is told about the identifier. A request to create a
  payment whose body is missing gets \<open>Payment data is required\<close>.
\<close>

theorem missing_value_rejected:
  "(\<not> truthy_param (params req ''id'') \<longrightarrow>
      get_payment cfg up req =
        ([], \<lparr>code = 400, payload = JObj [(''error'', JStr ''Payment ID is required'')]\<rparr>) \<and>
      put_payment cfg up req =
        ([], \<lparr>code = 400, payload = JObj [(''error'', JStr ''Payment ID is required'')]\<rparr>) \<and>
      delete_payment cfg up req =
        ([], \<lparr>code = 400, payload = JObj [(''error'', JStr ''Payment ID is required'')]\<rparr>)) \<and>
   (\<not> truthy (req_body req) \<longrightarrow>
      post_payment cfg up req =
        ([], \<lparr>code = 400, payload = JObj [(''error'', JStr ''Payment data is required'')]\<rparr>) \<and>
      fst (put_payment cfg up req) = [] \<and>
      code (snd (put_payment cfg up req)) = 400 \<and>
      (truthy_param (params req ''id'') \<longrightarrow>
         put_payment cfg up req =
           ([], \<lparr>code = 400, payload = JObj [(''error'', JStr ''Payment data is required'')]\<rparr>)))"
  by (simp add: get_payment_def put_payment_def delete_payment_def post_payment_def
      bad_request_def Let_def)

theorem missing_value_rejected_witness:
  "\<not> truthy (req_body (request_with None JUndefined)) \<and>
   \<not> truthy_param (params (request_with None JUndefined) ''id'') \<and>
   post_payment sample_config (answering ok_response) (request_with None JUndefined) =
     ([], \<lparr>code = 400, payload = JObj [(''error'', JStr ''Payment data is required'')]\<rparr>) \<and>
   delete_payment sample_config (answering ok_response) (request_with None JUndefined) =
     ([], \<lparr>code = 400, payload = JObj [(''error'', JStr ''Payment ID is required'')]\<rparr>)"
  using missing_value_rejected
    [of "request_with None JUndefined" sample_config "answering ok_response"]
  by (simp add: request_with_def)

section \<open>Upstream errors\<close>

text \<open>
  C4: when the upstream answers a data or payment call with a status outside the success
  range, the handler answers with that same status and an object with the members
  \<open>error\<close>, \<open>status\<close> and \<open>statusText\<close>. The write operations (create, update,
  delete) add the member \<open>details\<close>, the upstream body read as text (\<open>d\<close> below); the
  two reads have no such member.
\<close>

theorem upstream_error_relayed:
  assumes "\<not> ok r"
  shows
  "(up (show_data_call cfg) = Resolved r \<longrightarrow>
      snd (get_show_data cfg up) =
        \<lparr>code = r_status r,
         payload = JObj [(''error'', JStr ''Failed to fetch external API''),
                         (''status'', JNum (r_status r)),
                         (''statusText'', JStr (r_statusText r))]\<rparr>) \<and>
   (params req ''id'' = Some i \<and> i \<noteq> [] \<and> up (payment_get_call cfg i) = Resolved r \<longrightarrow>
      snd (get_payment cfg up req) =
        \<lparr>code = r_status r,
         payload = JObj [(''error'', JStr ''Failed to fetch payment data''),
                         (''status'', JNum (r_status r)),
                         (''statusText'', JStr (r_statusText r))]\<rparr>) \<and>
   (truthy (req_body req) \<and> up (payment_post_call cfg (req_body req)) = Resolved r \<and>
    r_text r = Inr d \<longrightarrow>
      snd (post_payment cfg up req) =
        \<lparr>code = r_status r,
         payload = JObj [(''error'', JStr ''Failed to create payment''),
                         (''status'', JNum (r_status r)),
                         (''statusText'', JStr (r_statusText r)),
                         (''details'', JStr d)]\<rparr>) \<and>
   (params req ''id'' = Some i \<and> i \<noteq> [] \<and> truthy (req_body req) \<and>
    up (payment_put_call cfg i (req_body req)) = Resolved r \<and> r_text r = Inr d \<longrightarrow>
      snd (put_payment cfg up req) =
        \<lparr>code = r_status r,
         payload = JObj [(''error'', JStr ''Failed to update payment''),
                         (''status'', JNum (r_status r)),
                         (''statusText'', JStr (r_statusText r)),
                         (''details'', JStr d)]\<rparr>) \<and>
   (params req ''id'' = Some i \<and> i \<noteq> [] \<and>
    up (payment_delete_call cfg i) = Resolved r \<and> r_text r = Inr d \<longrightarrow>
      snd (delete_payment cfg up req) =
        \<lparr>code = r_status r,
         payload = JObj [(''error'', JStr ''Failed to delete payment''),
                         (''status'', JNum (r_status r)),
                         (''statusText'', JStr (r_statusText r)),
                         (''details'', JStr d)]\<rparr>)"
  using assms
  by (simp add: get_show_data_def get_payment_def post_payment_def put_payment_def
      delete_payment_def Let_def)

theorem upstream_error_relayed_witness:
  "\<not> ok missing_response \<and>
   snd (get_show_data sample_config (answering missing_response)) =
     \<lparr>code = 404,
      payload = JObj [(''error'', JStr ''Failed to fetch external API''),
                      (''status'', JNum 404),
                      (''statusText'', JStr ''Not Found'')]\<rparr> \<and>
   snd (delete_payment sample_config (answering missing_response)
          (request_with (Some ''42'') JUndefined)) =
     \<lparr>code = 404,
      payload = JObj [(''error'', JStr ''Failed to delete payment''),
                      (''status'', JNum 404),
                      (''statusText'', JStr ''Not Found''),
                      (''details'', JStr ''no such payment'')]\<rparr>"
proof -
  have nok: "\<not> ok missing_response"
    by (simp add: ok_def missing_response_def)
  show ?thesis
    using nok
      upstream_error_relayed [OF nok, of "answering missing_response" sample_config
        "request_with (Some ''42'') JUndefined" "''42''" "''no such payment''"]
    by (simp add: answering_def request_with_def missing_response_def)
qed

section \<open>Deleting a payment\<close>

text \<open>
  C5: for every identifier \<open>i\<close>, when the upstream answers the delete call with a
  success status, the handler answers 200 with the object made of the message
  \<open>Payment deleted successfully\<close> and \<open>i\<close>, whatever the upstream body is (the body
  of \<open>r\<close> is arbitrary and is never read).
\<close>

theorem delete_acknowledged:
  assumes "params req ''id'' = Some i" and "i \<noteq> []"
    and "up (payment_delete_call cfg i) = Resolved r" and "ok r"
  shows "delete_payment cfg up req =
    ([payment_delete_call cfg i],
     \<lparr>code = 200,
      payload = JObj [(''message'', JStr ''Payment deleted successfully''), (''id'', JStr i)]\<rparr>)"
  using assms by (simp add: delete_payment_def Let_def)

theorem delete_acknowledged_witness:
  "delete_payment sample_config (answering ok_not_json_response)
     (request_with (Some ''42'') JUndefined) =
    ([payment_delete_call sample_config ''42''],
     \<lparr>code = 200,
      payload = JObj [(''message'', JStr ''Payment deleted successfully''), (''id'', JStr ''42'')]\<rparr>)"
  by (rule delete_acknowledged [where r = ok_not_json_response])
     (simp_all add: request_with_def answering_def ok_def ok_not_json_response_def)

section \<open>Transport failures\<close>

text \<open>
  C6, as the specification states it: whenever the outbound request of a forwarded call
  fails in transport, the handler answers 500 with an object whose member \<open>message\<close>
  carries the underlying error message. The connection test is a forwarded call too, and
  its answer has no member \<open>message\<close>: it carries the error message under \<open>error\<close>.
\<close>

theorem test_connection_failure_has_no_message:
  "code (snd (test_connection sample_config ''2026-01-01T00:00:00.000Z''
                (refusing ''connect ECONNREFUSED''))) = 500 \<and>
   field (payload (snd (test_connection sample_config ''2026-01-01T00:00:00.000Z''
                          (refusing ''connect ECONNREFUSED'')))) ''message'' = None \<and>
   field (payload (snd (test_connection sample_config ''2026-01-01T00:00:00.000Z''
                          (refusing ''connect ECONNREFUSED'')))) ''error'' =
     Some (JStr ''connect ECONNREFUSED'')"
  by (simp add: test_connection_def refusing_def Let_def)

text \<open>
  C6, amended: when the outbound request fails in transport with the message \<open>m\<close>, the
  five data and payment handlers answer 500 with the object made of the error
  \<open>Internal server error\<close> and the message \<open>m\<close>, and the connection test answers 500
  with an object that carries \<open>m\<close> under \<open>error\<close>, next to \<open>success\<close> (false),
  \<open>url\<close> and \<open>timestamp\<close>. Each handler returns a response in every case: the failure
  is caught in the handler.
\<close>

theorem transport_failure_reported:
  "(up (show_data_call cfg) = Rejected m \<longrightarrow>
      snd (get_show_data cfg up) =
        \<lparr>code = 500,
         payload = JObj [(''error'', JStr ''Internal server error''), (''message'', JStr m)]\<rparr>) \<and>
   (params req ''id'' = Some i \<and> i \<noteq> [] \<and> up (payment_get_call cfg i) = Rejected m \<longrightarrow>
      snd (get_payment cfg up req) =
        \<lparr>code = 500,
         payload = JObj [(''error'', JStr ''Internal server error''), (''message'', JStr m)]\<rparr>) \<and>
   (truthy (req_body req) \<and> up (payment_post_call cfg (req_body req)) = Rejected m \<longrightarrow>
      snd (post_payment cfg up req) =
        \<lparr>code = 500,
         payload = JObj [(''error'', JStr ''Internal server error''), (''message'', JStr m)]\<rparr>) \<and>
   (params req ''id'' = Some i \<and> i \<noteq> [] \<and> truthy (req_body req) \<and>
    up (payment_put_call cfg i (req_body req)) = Rejected m \<longrightarrow>
      snd (put_payment cfg up req) =
        \<lparr>code = 500,
         payload = JObj [(''error'', JStr ''Internal server error''), (''message'', JStr m)]\<rparr>) \<and>
   (params req ''id'' = Some i \<and> i \<noteq> [] \<and> up (payment_delete_call cfg i) = Rejected m \<longrightarrow>
      snd (delete_payment cfg up req) =
        \<lparr>code = 500,
         payload = JObj [(''error'', JStr ''Internal server error''), (''message'', JStr m)]\<rparr>) \<and>
   (up (test_connection_call cfg) = Rejected m \<longrightarrow>
      snd (test_connection cfg now up) =
        \<lparr>code = 500,
         payload = JObj [(''success'', JBool False), (''error'', JStr m),
                         (''url'', JStr (API_URL cfg)), (''timestamp'', JStr now)]\<rparr>)"
  by (simp add: get_show_data_def get_payment_def post_payment_def put_payment_def
      delete_payment_def test_connection_def internal_error_def Let_def)

theorem transport_failure_reported_witness:
  "refusing ''connect ECONNREFUSED'' (show_data_call sample_config) =
     Rejected ''connect ECONNREFUSED'' \<and>
   snd (get_show_data sample_config (refusing ''connect ECONNREFUSED'')) =
     \<lparr>code = 500,
      payload = JObj [(''error'', JStr ''Internal server error''),
                      (''message'', JStr ''connect ECONNREFUSED'')]\<rparr> \<and>
   snd (put_payment sample_config (refusing ''connect ECONNREFUSED'')
          (request_with (Some ''42'') (JObj [(''amount'', JNum 10)]))) =
     \<lparr>code = 500,
      payload = JObj [(''error'', JStr ''Internal server error''),
                      (''message'', JStr ''connect ECONNREFUSED'')]\<rparr>"
  using transport_failure_reported
    [of "refusing ''connect ECONNREFUSED''" sample_config "''connect ECONNREFUSED''"
        "request_with (Some ''42'') (JObj [(''amount'', JNum 10)])" "''42''" "''now''"]
  by (simp add: refusing_def request_with_def)

section \<open>Upstream successes\<close>

text \<open>
  C7, as the specification states it: when the upstream answers a collection fetch, a
  fetch by identifier or an update with a success status, the handler answers with that
  same status and the upstream JSON body. The handlers send the body with the default
  status: an upstream answer 201 is passed on as 200.
\<close>

theorem success_status_not_relayed:
  "ok created_response \<and> r_status created_response = 201 \<and>
   r_json created_response = Inr (JObj [(''amount'', JNum 10)]) \<and>
   get_show_data sample_config (answering created_response) =
     ([show_data_call sample_config], \<lparr>code = 200, payload = JObj [(''amount'', JNum 10)]\<rparr>)"
  by (simp add: get_show_data_def answering_def created_response_def ok_def Let_def)

text \<open>
  C7, amended: when the upstream answers a collection fetch, a fetch by identifier or an
  update with a success status and a body that parses as the JSON value \<open>d\<close>, the
  handler answers with status 200 and the body \<open>d\<close>.
\<close>

theorem success_relayed_as_200:
  assumes "ok r" and "r_json r = Inr d"
  shows
  "(up (show_data_call cfg) = Resolved r \<longrightarrow>
      snd (get_show_data cfg up) = \<lparr>code = 200, payload = d\<rparr>) \<and>
   (params req ''id'' = Some i \<and> i \<noteq> [] \<and> up (payment_get_call cfg i) = Resolved r \<longrightarrow>
      snd (get_payment cfg up req) = \<lparr>code = 200, payload = d\<rparr>) \<and>
   (params req ''id'' = Some i \<and> i \<noteq> [] \<and> truthy (req_body req) \<and>
    up (payment_put_call cfg i (req_body req)) = Resolved r \<longrightarrow>
      snd (put_payment cfg up req) = \<lparr>code = 200, payload = d\<rparr>)"
  using assms
  by (simp add: get_show_data_def get_payment_def put_payment_def Let_def)

theorem success_relayed_as_200_witness:
  "ok ok_response \<and>
   snd (get_payment sample_config (answering ok_response)
          (request_with (Some ''42'') JUndefined)) =
     \<lparr>code = 200, payload = JObj [(''amount'', JNum 10)]\<rparr>"
proof -
  have a: "ok ok_response"
    by (simp add: ok_def ok_response_def)
  have b: "r_json ok_response = Inr (JObj [(''amount'', JNum 10)])"
    by (simp add: ok_response_def)
  show ?thesis
    using a success_relayed_as_200 [OF a b, of "answering ok_response" sample_config
      "request_with (Some ''42'') JUndefined" "''42''"]
    by (simp add: answering_def request_with_def)
qed

section \<open>Requests that no route matches\<close>

text \<open>
  C8: a request that matches none of the routes is answered with status 404 and an
  object with the members \<open>error\<close>, \<open>path\<close>, \<open>method\<close> and \<open>availableEndpoints\<close>,
  the last one listing exactly the routes that the server defines. The list names a
  route \<open>GET /api/payment/:id\<close>, which the server does not define, in place of
  \<open>GET /api/show/data/payment/:id\<close>, which it does: a GET of \<open>/api/payment/42\<close> is
  answered with 404 and a list that offers this very route.
\<close>

theorem unmatched_route_lists_undefined_route:
  "app sample_config ''2026-01-01T00:00:00.000Z'' (answering ok_response) get_api_payment_42 =
     ([], \<lparr>code = 404,
           payload = JObj [(''error'', JStr ''Route not found''),
                           (''path'', JStr ''/api/payment/42''),
                           (''method'', JStr ''GET''),
                           (''availableEndpoints'', JArr (map JStr availableEndpoints))]\<rparr>) \<and>
   ''GET /api/payment/:id'' \<in> set availableEndpoints \<and>
   ''GET /api/payment/:id'' \<notin> set (map route_name routes) \<and>
   ''GET /api/show/data/payment/:id'' \<in> set (map route_name routes) \<and>
   ''GET /api/show/data/payment/:id'' \<notin> set availableEndpoints"
  by (simp add: app_def routes_def get_api_payment_42_def not_found_def availableEndpoints_def)

section \<open>Headers and bodies of the outbound calls\<close>

lemmas call_defs =
  show_data_call_def payment_get_call_def payment_post_call_def payment_put_call_def
  payment_delete_call_def test_connection_call_def bearer_def content_type_json_def

lemmas handler_defs =
  health_def get_show_data_def get_payment_def post_payment_def put_payment_def
  delete_payment_def test_connection_def

lemma run_handler_calls:
  assumes "rq \<in> set (fst (run_handler h cfg now up req))"
  shows "authorized cfg rq \<and> (fetch_body rq \<noteq> None \<longrightarrow> declares_json rq)"
  using assms
  by (cases h)
     (auto simp: handler_defs call_defs authorized_def declares_json_def Let_def
       split: if_splits)

text \<open>Whatever the router does with a request, its outbound calls are those of a handler.\<close>

lemma dispatch_calls:
  assumes "rq \<in> set (fst (dispatch rs cfg now up req))"
  shows "\<exists>h req'. rq \<in> set (fst (run_handler h cfg now up req'))"
  using assms
proof (induction rs)
  case Nil
  then show ?case by simp
next
  case (Cons r rs)
  obtain m pat h where r: "r = (m, pat, h)" by (cases r) auto
  show ?case
  proof (cases "req_method req = m")
    case True
    show ?thesis
    proof (cases "match_path pat (path req)")
      case None
      with True r Cons show ?thesis by simp
    next
      case (Some ps)
      with True r Cons.prems
      have "rq \<in> set (fst (run_handler h cfg now up (req\<lparr>params := ps\<rparr>)))"
        by simp
      then show ?thesis by blast
    qed
  next
    case False
    with r Cons show ?thesis by simp
  qed
qed

text \<open>
  C9: every outbound call, of every operation, carries the header
  \<open>Authorization: Bearer\<close> followed by the token; the calls that carry a body (create
  and update) declare the JSON content type and their body is the request's payload
  serialized as JSON; the delete call and the GET calls carry no body. The first five
  parts bound every call that a handler, or the server as a whole, can make. The others
  give the calls themselves: each handler, once its presence checks pass, makes exactly
  one call, written out here with its headers and body.
\<close>

theorem outbound_calls_authorized:
  "(\<forall>rq \<in> set (fst (app cfg now up req)).
      authorized cfg rq \<and> (fetch_body rq \<noteq> None \<longrightarrow> declares_json rq)) \<and>
   (\<forall>rq \<in> set (fst (run_handler h cfg now up req)).
      authorized cfg rq \<and> (fetch_body rq \<noteq> None \<longrightarrow> declares_json rq)) \<and>
   (\<forall>rq \<in> set (fst (post_payment cfg up req)).
      fetch_body rq = Some (req_body req) \<and> declares_json rq) \<and>
   (\<forall>rq \<in> set (fst (put_payment cfg up req)).
      fetch_body rq = Some (req_body req) \<and> declares_json rq) \<and>
   (\<forall>rq \<in> set (fst (delete_payment cfg up req)) \<union> set (fst (get_show_data cfg up)) \<union>
            set (fst (get_payment cfg up req)) \<union> set (fst (test_connection cfg now up)).
      fetch_body rq = None) \<and>
   fst (get_show_data cfg up) =
     [\<lparr>url = API_URL cfg, fetch_method = None,
       headers = [(''Authorization'', ''Bearer '' @ API_TOKEN cfg),
                  (''Content-Type'', ''application/json'')],
       fetch_body = None\<rparr>] \<and>
   fst (test_connection cfg now up) =
     [\<lparr>url = API_URL cfg, fetch_method = None,
       headers = [(''Authorization'', ''Bearer '' @ API_TOKEN cfg)],
       fetch_body = None\<rparr>] \<and>
   (truthy (req_body req) \<longrightarrow>
      fst (post_payment cfg up req) =
        [\<lparr>url = paymentEndpoint (API_PAYMENT cfg), fetch_method = Some ''POST'',
          headers = [(''Authorization'', ''Bearer '' @ API_TOKEN cfg),
                     (''Content-Type'', ''application/json'')],
          fetch_body = Some (req_body req)\<rparr>]) \<and>
   (params req ''id'' = Some i \<and> i \<noteq> [] \<and> truthy (req_body req) \<longrightarrow>
      fst (put_payment cfg up req) =
        [\<lparr>url = paymentUrl (API_PAYMENT cfg) i, fetch_method = Some ''PUT'',
          headers = [(''Authorization'', ''Bearer '' @ API_TOKEN cfg),
                     (''Content-Type'', ''application/json'')],
          fetch_body = Some (req_body req)\<rparr>]) \<and>
   (params req ''id'' = Some i \<and> i \<noteq> [] \<longrightarrow>
      fst (get_payment cfg up req) =
        [\<lparr>url = paymentUrl (API_PAYMENT cfg) i, fetch_method = None,
          headers = [(''Authorization'', ''Bearer '' @ API_TOKEN cfg),
                     (''Content-Type'', ''application/json'')],
          fetch_body = None\<rparr>] \<and>
      fst (delete_payment cfg up req) =
        [\<lparr>url = paymentUrl (API_PAYMENT cfg) i, fetch_method = Some ''DELETE'',
          headers = [(''Authorization'', ''Bearer '' @ API_TOKEN cfg),
                     (''Content-Type'', ''application/json'')],
          fetch_body = None\<rparr>])"
proof -
  have bounded:
    "(\<forall>rq \<in> set (fst (app cfg now up req)).
        authorized cfg rq \<and> (fetch_body rq \<noteq> None \<longrightarrow> declares_json rq)) \<and>
     (\<forall>rq \<in> set (fst (run_handler h cfg now up req)).
        authorized cfg rq \<and> (fetch_body rq \<noteq> None \<longrightarrow> declares_json rq)) \<and>
     (\<forall>rq \<in> set (fst (post_payment cfg up req)).
        fetch_body rq = Some (req_body req) \<and> declares_json rq) \<and>
     (\<forall>rq \<in> set (fst (put_payment cfg up req)).
        fetch_body rq = Some (req_body req) \<and> declares_json rq) \<and>
     (\<forall>rq \<in> set (fst (delete_payment cfg up req)) \<union> set (fst (get_show_data cfg up)) \<union>
              set (fst (get_payment cfg up req)) \<union> set (fst (test_connection cfg now up)).
        fetch_body rq = None)"
  proof (intro conjI ballI)
    fix rq assume "rq \<in> set (fst (app cfg now up req))"
    then obtain h' req' where "rq \<in> set (fst (run_handler h' cfg now up req'))"
      unfolding app_def using dispatch_calls by blast
    then show "authorized cfg rq" and "fetch_body rq \<noteq> None \<longrightarrow> declares_json rq"
      using run_handler_calls by blast+
  next
    fix rq assume "rq \<in> set (fst (run_handler h cfg now up req))"
    then show "authorized cfg rq" and "fetch_body rq \<noteq> None \<longrightarrow> declares_json rq"
      using run_handler_calls by blast+
  next
    fix rq assume "rq \<in> set (fst (post_payment cfg up req))"
    then show "fetch_body rq = Some (req_body req)" and "declares_json rq"
      by (auto simp: post_payment_def call_defs declares_json_def Let_def split: if_splits)
  next
    fix rq assume "rq \<in> set (fst (put_payment cfg up req))"
    then show "fetch_body rq = Some (req_body req)" and "declares_json rq"
      by (auto simp: put_payment_def call_defs declares_json_def Let_def split: if_splits)
  next
    fix rq
    assume "rq \<in> set (fst (delete_payment cfg up req)) \<union> set (fst (get_show_data cfg up)) \<union>
              set (fst (get_payment cfg up req)) \<union> set (fst (test_connection cfg now up))"
    then show "fetch_body rq = None"
      by (auto simp: handler_defs call_defs Let_def split: if_splits)
  qed
  have made:
    "fst (get_show_data cfg up) =
       [\<lparr>url = API_URL cfg, fetch_method = None,
         headers = [(''Authorization'', ''Bearer '' @ API_TOKEN cfg),
                    (''Content-Type'', ''application/json'')],
         fetch_body = None\<rparr>] \<and>
     fst (test_connection cfg now up) =
       [\<lparr>url = API_URL cfg, fetch_method = None,
         headers = [(''Authorization'', ''Bearer '' @ API_TOKEN cfg)],
         fetch_body = None\<rparr>] \<and>
     (truthy (req_body req) \<longrightarrow>
        fst (post_payment cfg up req) =
          [\<lparr>url = paymentEndpoint (API_PAYMENT cfg), fetch_method = Some ''POST'',
            headers = [(''Authorization'', ''Bearer '' @ API_TOKEN cfg),
                       (''Content-Type'', ''application/json'')],
            fetch_body = Some (req_body req)\<rparr>]) \<and>
     (params req ''id'' = Some i \<and> i \<noteq> [] \<and> truthy (req_body req) \<longrightarrow>
        fst (put_payment cfg up req) =
          [\<lparr>url = paymentUrl (API_PAYMENT cfg) i, fetch_method = Some ''PUT'',
            headers = [(''Authorization'', ''Bearer '' @ API_TOKEN cfg),
                       (''Content-Type'', ''application/json'')],
            fetch_body = Some (req_body req)\<rparr>]) \<and>
     (params req ''id'' = Some i \<and> i \<noteq> [] \<longrightarrow>
        fst (get_payment cfg up req) =
          [\<lparr>url = paymentUrl (API_PAYMENT cfg) i, fetch_method = None,
            headers = [(''Authorization'', ''Bearer '' @ API_TOKEN cfg),
                       (''Content-Type'', ''application/json'')],
            fetch_body = None\<rparr>] \<and>
        fst (delete_payment cfg up req) =
          [\<lparr>url = paymentUrl (API_PAYMENT cfg) i, fetch_method = Some ''DELETE'',
            headers = [(''Authorization'', ''Bearer '' @ API_TOKEN cfg),
                       (''Content-Type'', ''application/json'')],
            fetch_body = None\<rparr>])"
    by (simp add: handler_defs call_defs Let_def)
  from bounded made show ?thesis by blast
qed

theorem outbound_calls_authorized_witness:
  "fst (post_payment sample_config (answering created_response)
          (request_with None (JObj [(''amount'', JNum 10)]))) =
     [\<lparr>url = ''https://api.example.com/payments'', fetch_method = Some ''POST'',
       headers = [(''Authorization'', ''Bearer secret''), (''Content-Type'', ''application/json'')],
       fetch_body = Some (JObj [(''amount'', JNum 10)])\<rparr>] \<and>
   fst (put_payment sample_config (answering ok_response)
          (request_with (Some ''42'') (JObj [(''amount'', JNum 10)]))) =
     [\<lparr>url = ''https://api.example.com/payments/42'', fetch_method = Some ''PUT'',
       headers = [(''Authorization'', ''Bearer secret''), (''Content-Type'', ''application/json'')],
       fetch_body = Some (JObj [(''amount'', JNum 10)])\<rparr>] \<and>
   fst (delete_payment sample_config (answering ok_response)
          (request_with (Some ''42'') (JObj [(''amount'', JNum 10)]))) =
     [\<lparr>url = ''https://api.example.com/payments/42'', fetch_method = Some ''DELETE'',
       headers = [(''Authorization'', ''Bearer secret''), (''Content-Type'', ''application/json'')],
       fetch_body = None\<rparr>] \<and>
   authorized sample_config
     \<lparr>url = ''https://api.example.com/payments/42'', fetch_method = Some ''PUT'',
      headers = [(''Authorization'', ''Bearer secret''), (''Content-Type'', ''application/json'')],
      fetch_body = Some (JObj [(''amount'', JNum 10)])\<rparr> \<and>
   declares_json
     \<lparr>url = ''https://api.example.com/payments/42'', fetch_method = Some ''PUT'',
      headers = [(''Authorization'', ''Bearer secret''), (''Content-Type'', ''application/json'')],
      fetch_body = Some (JObj [(''amount'', JNum 10)])\<rparr>"
proof -
  have post_url: "paymentEndpoint (API_PAYMENT sample_config) = ''https://api.example.com/payments''"
    by (simp add: sample_config_def paymentEndpoint_def js_includes_def js_replace_def)
  have put_url: "paymentUrl (API_PAYMENT sample_config) ''42'' = ''https://api.example.com/payments/42''"
    by (simp add: sample_config_def paymentUrl_def js_replace_def)
  have token: "API_TOKEN sample_config = ''secret''"
    by (simp add: sample_config_def)
  show ?thesis
    using post_url put_url token
      outbound_calls_authorized
        [of sample_config "''now''" "answering created_response"
            "request_with None (JObj [(''amount'', JNum 10)])" PostPayment "''42''"]
      outbound_calls_authorized
        [of sample_config "''now''" "answering ok_response"
            "request_with (Some ''42'') (JObj [(''amount'', JNum 10)])" PutPayment "''42''"]
    by (simp add: request_with_def)
qed

section \<open>Success answers that are not JSON\<close>

text \<open>
  C10, as stated: every forwarded call whose upstream answer has a success status and a
  body that is not valid JSON is answered with 500. The delete handler never parses the
  body of a success answer: it answers 200 with its acknowledgement.
\<close>

theorem delete_ignores_invalid_json:
  "ok ok_not_json_response \<and>
   r_json ok_not_json_response = Inl ''Unexpected token < in JSON at position 0'' \<and>
   snd (delete_payment sample_config (answering ok_not_json_response)
          (request_with (Some ''42'') JUndefined)) =
     \<lparr>code = 200,
      payload = JObj [(''message'', JStr ''Payment deleted successfully''), (''id'', JStr ''42'')]\<rparr>"
  by (simp add: delete_payment_def answering_def ok_not_json_response_def ok_def
      request_with_def Let_def)

text \<open>
  C10, amended: for the collection fetch, the fetch by identifier, the create and the
  update operations, a success answer whose body fails to parse with the message \<open>m\<close> is
  answered with 500 and the object made of the error \<open>Internal server error\<close> and the
  message \<open>m\<close>, the parse failure being caught like a transport failure. The delete
  operation and the connection test do not parse the body and answer 200.
\<close>

theorem invalid_json_reported:
  assumes "ok r" and "r_json r = Inl m"
  shows
  "(up (show_data_call cfg) = Resolved r \<longrightarrow>
      snd (get_show_data cfg up) =
        \<lparr>code = 500,
         payload = JObj [(''error'', JStr ''Internal server error''), (''message'', JStr m)]\<rparr>) \<and>
   (params req ''id'' = Some i \<and> i \<noteq> [] \<and> up (payment_get_call cfg i) = Resolved r \<longrightarrow>
      snd (get_payment cfg up req) =
        \<lparr>code = 500,
         payload = JObj [(''error'', JStr ''Internal server error''), (''message'', JStr m)]\<rparr>) \<and>
   (truthy (req_body req) \<and> up (payment_post_call cfg (req_body req)) = Resolved r \<longrightarrow>
      snd (post_payment cfg up req) =
        \<lparr>code = 500,
         payload = JObj [(''error'', JStr ''Internal server error''), (''message'', JStr m)]\<rparr>) \<and>
   (params req ''id'' = Some i \<and> i \<noteq> [] \<and> truthy (req_body req) \<and>
    up (payment_put_call cfg i (req_body req)) = Resolved r \<longrightarrow>
      snd (put_payment cfg up req) =
        \<lparr>code = 500,
         payload = JObj [(''error'', JStr ''Internal server error''), (''message'', JStr m)]\<rparr>) \<and>
   (params req ''id'' = Some i \<and> i \<noteq> [] \<and> up (payment_delete_call cfg i) = Resolved r \<longrightarrow>
      snd (delete_payment cfg up req) =
        \<lparr>code = 200,
         payload = JObj [(''message'', JStr ''Payment deleted successfully''), (''id'', JStr i)]\<rparr>) \<and>
   (up (test_connection_call cfg) = Resolved r \<longrightarrow>
      code (snd (test_connection cfg now up)) = 200)"
  using assms
  by (simp add: get_show_data_def get_payment_def post_payment_def put_payment_def
      delete_payment_def test_connection_def internal_error_def Let_def)

theorem invalid_json_reported_witness:
  "ok ok_not_json_response \<and>
   snd (post_payment sample_config (answering ok_not_json_response)
          (request_with None (JObj [(''amount'', JNum 10)]))) =
     \<lparr>code = 500,
      payload = JObj [(''error'', JStr ''Internal server error''),
                      (''message'', JStr ''Unexpected token < in JSON at position 0'')]\<rparr>"
proof -
  have a: "ok ok_not_json_response"
    by (simp add: ok_def ok_not_json_response_def)
  have b: "r_json ok_not_json_response = Inl ''Unexpected token < in JSON at position 0''"
    by (simp add: ok_not_json_response_def)
  show ?thesis
    using a invalid_json_reported [OF a b, of "answering ok_not_json_response" sample_config
      "request_with None (JObj [(''amount'', JNum 10)])"]
    by (simp add: answering_def request_with_def)
qed

end
